theory Spec2Isabelle
  imports Main
begin

section \<open>Data model\<close>

text \<open>
  The token store of the Strava MCP server is the class \<open>StravaAuth\<close> (auth.ts). Its
  fields and the two interfaces of types/strava.ts it uses are records. \<open>expiresAt\<close> is a
  Unix timestamp in seconds: an integer, so \<open>number\<close> is \<open>int\<close> here. Strings are
  sequences of bytes (their UTF-8 encoding).
\<close>

record StravaTokens =
  accessToken :: string
  refreshToken :: string
  expiresAt :: int

record StravaTokenResponse =
  access_token :: string
  refresh_token :: string
  expires_at :: int
  expires_in :: int
  token_type :: string

record StravaAuth =
  clientId :: string
  clientSecret :: string
  tokens :: "StravaTokens option"

text \<open>
  A thrown value. \<open>Error\<close> is what \<open>throw new Error(msg)\<close> of auth.ts throws; the other two
  are the rejections of the platform: \<open>fetch\<close> rejects with a \<open>TypeError\<close> on a network
  failure, \<open>response.json()\<close> with a \<open>SyntaxError\<close> on a body that is not JSON, and reading
  a property of \<open>null\<close> throws a \<open>TypeError\<close> (with the message of Node's engine).
\<close>

datatype error = Error string | TypeError string | SyntaxError string

text \<open>
  An object that \<open>response.json()\<close> resolves to. The code reads it through two
  interfaces: the fields of \<open>StravaTokenResponse\<close>, which the cast
  \<open>as StravaTokenResponse\<close> asserts, on the success path, and the property \<open>message\<close>
  on the failure path, as the template literal renders it (\<open>None\<close> when the object has
  none). A path never reads the fields of the other one.
\<close>

record json_object = StravaTokenResponse +
  message :: "string option"

text \<open>
  The value that \<open>response.json()\<close> resolves to. A body that is the JSON text \<open>null\<close>
  parses, to \<open>null\<close>: no property of it can be read. Every other value is an object as
  above.
\<close>

datatype json_value = JsonNull | JsonObject json_object

text \<open>
  What \<open>fetch\<close> resolves to: the status line and the outcome of \<open>response.json()\<close>
  (\<open>Inl\<close> when that promise rejects). \<open>response.ok\<close> is true for the statuses 200 to 299.
\<close>

record response =
  status :: nat
  statusText :: string
  json :: "error + json_value"

definition ok :: "response \<Rightarrow> bool" where
  "ok r = (200 \<le> status r \<and> status r \<le> 299)"

text \<open>
  The argument of \<open>fetch\<close>: the URL and the init object (its \<open>method\<close> is
  \<open>http_method\<close> here). \<open>body\<close> is the object handed to \<open>JSON.stringify\<close>, as its
  key-value pairs in order.
\<close>

record request =
  url :: string
  http_method :: string
  headers :: "(string \<times> string) list"
  body :: "(string \<times> string) list"

text \<open>
  The process: the one \<open>StravaAuth\<close> object and the requests sent so far, oldest first.
  The network answers a request knowing the requests before it; \<open>Inl\<close> is a rejected
  \<open>fetch\<close>.
\<close>

record process =
  auth :: StravaAuth
  requests :: "request list"

type_synonym network = "request list \<Rightarrow> request \<Rightarrow> error + response"

definition fetch :: "network \<Rightarrow> request \<Rightarrow> process \<Rightarrow> (error + response) \<times> process" where
  "fetch net rq p = (net (requests p) rq, p\<lparr>requests := requests p @ [rq]\<rparr>)"

section \<open>The methods of StravaAuth\<close>

definition constructor :: "string \<Rightarrow> string \<Rightarrow> StravaAuth" where
  "constructor cid secret = \<lparr>clientId = cid, clientSecret = secret, tokens = None\<rparr>"

definition setTokens :: "string \<Rightarrow> string \<Rightarrow> int \<Rightarrow> process \<Rightarrow> (error + unit) \<times> process" where
  "setTokens a r e p =
     (Inr (), p\<lparr>auth := (auth p)\<lparr>tokens :=
        Some \<lparr>accessToken = a, refreshToken = r, expiresAt = e\<rparr>\<rparr>\<rparr>)"

text \<open>JavaScript's \<open>a || b\<close> on an optional string: \<open>undefined\<close> and the empty string are falsy.\<close>

definition or_else :: "string option \<Rightarrow> string \<Rightarrow> string" where
  "or_else m d = (case m of None \<Rightarrow> d | Some s \<Rightarrow> if s = [] then d else s)"

text \<open>
  \<open>(await response.json().catch(() => ({ message: response.statusText }))).message\<close>:
  the \<open>catch\<close> answers a rejected \<open>json()\<close> only; when \<open>json()\<close> resolves to \<open>null\<close>,
  reading \<open>message\<close> throws.
\<close>

definition error_message :: "response \<Rightarrow> error + string option" where
  "error_message r =
     (case json r of
        Inl _ \<Rightarrow> Inr (Some (statusText r))
      | Inr JsonNull \<Rightarrow> Inl (TypeError ''Cannot read properties of null (reading 'message')'')
      | Inr (JsonObject b) \<Rightarrow> Inr (message b))"

text \<open>
  The success path, \<open>data = (await response.json()) as StravaTokenResponse\<close> and the
  three reads \<open>data.access_token\<close>, \<open>data.refresh_token\<close>, \<open>data.expires_at\<close>: a
  rejected \<open>json()\<close> is rethrown, and the first read throws when \<open>data\<close> is \<open>null\<close>.
\<close>

definition token_response :: "response \<Rightarrow> error + json_object" where
  "token_response r =
     (case json r of
        Inl e \<Rightarrow> Inl e
      | Inr JsonNull \<Rightarrow> Inl (TypeError ''Cannot read properties of null (reading 'access_token')'')
      | Inr (JsonObject data) \<Rightarrow> Inr data)"

definition exchange_request :: "StravaAuth \<Rightarrow> string \<Rightarrow> request" where
  "exchange_request a code =
     \<lparr>url = ''https://www.strava.com/oauth/token'',
      http_method = ''POST'',
      headers = [(''Content-Type'', ''application/json'')],
      body = [(''client_id'', clientId a), (''client_secret'', clientSecret a),
              (''code'', code), (''grant_type'', ''authorization_code'')]\<rparr>"

definition refresh_request :: "StravaAuth \<Rightarrow> StravaTokens \<Rightarrow> request" where
  "refresh_request a t =
     \<lparr>url = ''https://www.strava.com/oauth/token'',
      http_method = ''POST'',
      headers = [(''Content-Type'', ''application/json'')],
      body = [(''client_id'', clientId a), (''client_secret'', clientSecret a),
              (''refresh_token'', refreshToken t), (''grant_type'', ''refresh_token'')]\<rparr>"

text \<open>The assignment \<open>this.tokens = { accessToken: data.access_token, ... }\<close>.\<close>

definition from_response :: "json_object \<Rightarrow> StravaTokens" where
  "from_response data =
     \<lparr>accessToken = access_token data, refreshToken = refresh_token data,
      expiresAt = expires_at data\<rparr>"

definition install :: "StravaTokens \<Rightarrow> process \<Rightarrow> process" where
  "install t p = p\<lparr>auth := (auth p)\<lparr>tokens := Some t\<rparr>\<rparr>"

definition exchangeToken :: "network \<Rightarrow> string \<Rightarrow> process \<Rightarrow> (error + StravaTokens) \<times> process" where
  "exchangeToken net code p =
     (case fetch net (exchange_request (auth p) code) p of
        (Inl e, p1) \<Rightarrow> (Inl e, p1)
      | (Inr r, p1) \<Rightarrow>
          if \<not> ok r then
            (case error_message r of
               Inl e \<Rightarrow> (Inl e, p1)
             | Inr m \<Rightarrow>
                 (Inl (Error (''Failed to exchange token: '' @ or_else m (statusText r))), p1))
          else
            (case token_response r of
               Inl e \<Rightarrow> (Inl e, p1)
             | Inr data \<Rightarrow> (Inr (from_response data), install (from_response data) p1)))"

definition refreshAccessToken :: "network \<Rightarrow> process \<Rightarrow> (error + StravaTokens) \<times> process" where
  "refreshAccessToken net p =
     (case tokens (auth p) of
        None \<Rightarrow> (Inl (Error ''No tokens available to refresh''), p)
      | Some t \<Rightarrow>
          (case fetch net (refresh_request (auth p) t) p of
             (Inl e, p1) \<Rightarrow> (Inl e, p1)
           | (Inr r, p1) \<Rightarrow>
               if \<not> ok r then
                 (case error_message r of
                    Inl e \<Rightarrow> (Inl e, p1)
                  | Inr m \<Rightarrow>
                      (Inl (Error (''Failed to refresh token: '' @ or_else m (statusText r))), p1))
               else
                 (case token_response r of
                    Inl e \<Rightarrow> (Inl e, p1)
                  | Inr data \<Rightarrow> (Inr (from_response data), install (from_response data) p1))))"

text \<open>
  \<open>getValidAccessToken\<close> reads the clock: \<open>date_now\<close> is the value of \<open>Date.now()\<close>, in
  milliseconds. The last line reads \<open>this.tokens\<close> again, after the refresh.
\<close>

definition getValidAccessToken :: "network \<Rightarrow> int \<Rightarrow> process \<Rightarrow> (error + string) \<times> process" where
  "getValidAccessToken net date_now p =
     (case tokens (auth p) of
        None \<Rightarrow> (Inl (Error ''No tokens available. Please authenticate first.''), p)
      | Some t \<Rightarrow>
          let now = date_now div 1000; bufferTime = 300 in
          if expiresAt t \<le> now + bufferTime then
            (case refreshAccessToken net p of
               (Inl e, p1) \<Rightarrow> (Inl e, p1)
             | (Inr _, p1) \<Rightarrow>
                 (case tokens (auth p1) of
                    None \<Rightarrow> (Inl (TypeError ''Cannot read properties of null (reading 'accessToken')''), p1)
                  | Some t1 \<Rightarrow> (Inr (accessToken t1), p1)))
          else (Inr (accessToken t), p))"

definition hasTokens :: "process \<Rightarrow> (error + bool) \<times> process" where
  "hasTokens p = (Inr (tokens (auth p) \<noteq> None), p)"


subsection \<open>The authorization URL\<close>

text \<open>
  \<open>URLSearchParams.prototype.toString\<close> is the application/x-www-form-urlencoded
  serializer of the URL standard: a space becomes \<open>+\<close>, the ASCII letters and digits and
  \<open>* - . _\<close> stay, every other byte becomes \<open>%\<close> and its two upper-case hexadecimal
  digits; a name and its value are joined by \<open>=\<close>, the pairs by \<open>&\<close>.
\<close>

definition unreserved :: "char \<Rightarrow> bool" where
  "unreserved c =
     (c \<in> set ''abcdefghijklmnopqrstuvwxyzABCDEFGHIJKLMNOPQRSTUVWXYZ0123456789*-._'')"

definition hex_digit :: "nat \<Rightarrow> char" where
  "hex_digit n = ''0123456789ABCDEF'' ! (n mod 16)"

definition encode_byte :: "char \<Rightarrow> string" where
  "encode_byte c =
     (if c = CHR '' '' then ''+''
      else if unreserved c then [c]
      else [CHR ''%'', hex_digit (of_char c div 16), hex_digit (of_char c mod 16)])"

definition urlencode :: "string \<Rightarrow> string" where
  "urlencode s = concat (map encode_byte s)"

fun toString :: "(string \<times> string) list \<Rightarrow> string" where
  "toString [] = []"
| "toString [(k, v)] = urlencode k @ ''='' @ urlencode v"
| "toString ((k, v) # kv # rest) = urlencode k @ ''='' @ urlencode v @ ''&'' @ toString (kv # rest)"

text \<open>The parameter \<open>scope\<close> has a default value, used when the caller passes none.\<close>

definition getAuthorizationUrl :: "string \<Rightarrow> string option \<Rightarrow> process \<Rightarrow> (error + string) \<times> process" where
  "getAuthorizationUrl redirectUri scope p =
     (let scope = (case scope of
                     None \<Rightarrow> ''read,activity:read_all,activity:write,profile:read_all''
                   | Some s \<Rightarrow> s);
          params = [(''client_id'', clientId (auth p)), (''redirect_uri'', redirectUri),
                    (''response_type'', ''code''), (''scope'', scope)]
      in (Inr (''https://www.strava.com/oauth/authorize?'' @ toString params), p))"

text \<open>
  The reading side, which the authorization server does: the query string is cut at
  every \<open>&\<close>, each piece at its first \<open>=\<close>, and both halves are decoded (\<open>+\<close> is a space,
  \<open>%XY\<close> the byte with hexadecimal digits \<open>XY\<close>).
\<close>

definition unhex :: "char \<Rightarrow> nat" where
  "unhex c = (if of_char c \<le> (57::nat) then of_char c - 48 else of_char c - 55)"

fun urldecode :: "string \<Rightarrow> string" where
  "urldecode [] = []"
| "urldecode (c # cs) =
     (if c = CHR ''%'' then
        (case cs of
           h1 # h2 # rest \<Rightarrow> char_of (unhex h1 * 16 + unhex h2) # urldecode rest
         | _ \<Rightarrow> c # urldecode cs)
      else (if c = CHR ''+'' then CHR '' '' else c) # urldecode cs)"

fun split_on :: "char \<Rightarrow> string \<Rightarrow> string list" where
  "split_on d [] = [[]]"
| "split_on d (c # cs) =
     (if c = d then [] # split_on d cs
      else (case split_on d cs of [] \<Rightarrow> [[c]] | w # ws \<Rightarrow> (c # w) # ws))"

definition parse_pair :: "string \<Rightarrow> string \<times> string" where
  "parse_pair s =
     (urldecode (takeWhile (\<lambda>c. c \<noteq> CHR ''='') s),
      urldecode (drop 1 (dropWhile (\<lambda>c. c \<noteq> CHR ''='') s)))"

definition parse_query :: "string \<Rightarrow> (string \<times> string) list" where
  "parse_query q = map parse_pair (split_on CHR ''&'' q)"

definition query_of :: "string \<Rightarrow> string" where
  "query_of u = drop 1 (dropWhile (\<lambda>c. c \<noteq> CHR ''?'') u)"

subsection \<open>Sequences of calls\<close>

text \<open>A call of one public method with its arguments, and the state it leaves.\<close>

datatype operation =
    SetTokens string string int
  | ExchangeToken string
  | RefreshAccessToken
  | GetValidAccessToken int
  | GetAuthorizationUrl string "string option"
  | HasTokens

fun perform :: "network \<Rightarrow> operation \<Rightarrow> process \<Rightarrow> process" where
  "perform net (SetTokens a r e) p = snd (setTokens a r e p)"
| "perform net (ExchangeToken code) p = snd (exchangeToken net code p)"
| "perform net RefreshAccessToken p = snd (refreshAccessToken net p)"
| "perform net (GetValidAccessToken date_now) p = snd (getValidAccessToken net date_now p)"
| "perform net (GetAuthorizationUrl redirectUri scope) p = snd (getAuthorizationUrl redirectUri scope p)"
| "perform net HasTokens p = snd (hasTokens p)"

fun perform_all :: "network \<Rightarrow> operation list \<Rightarrow> process \<Rightarrow> process" where
  "perform_all net [] p = p"
| "perform_all net (x # xs) p = perform_all net xs (perform net x p)"

subsection \<open>Calls in flight\<close>

text \<open>
  An \<open>async\<close> method runs until its next \<open>await\<close> and is resumed later, so other calls
  can run between two of its pieces. A call of \<open>getValidAccessToken\<close> is at one of these
  points: just called (with the clock reading it will see), suspended at
  \<open>await fetch(...)\<close> inside \<open>refreshAccessToken\<close> (with the settlement that will arrive),
  suspended at \<open>await response.json()\<close> on the failure or on the success path, suspended
  at \<open>await this.refreshAccessToken()\<close> (with what that call settled to), or settled.
\<close>

datatype call =
    Called int
  | AwaitFetch "error + response"
  | AwaitErrorJson response
  | AwaitDataJson response
  | AwaitRefresh "error + StravaTokens"
  | Settled "error + string"

text \<open>\<open>refreshAccessToken\<close> from its first line to its first \<open>await\<close>.\<close>

definition refresh_called :: "network \<Rightarrow> process \<Rightarrow> call \<times> process" where
  "refresh_called net p =
     (case tokens (auth p) of
        None \<Rightarrow> (AwaitRefresh (Inl (Error ''No tokens available to refresh'')), p)
      | Some t \<Rightarrow>
          (case fetch net (refresh_request (auth p) t) p of (r, p1) \<Rightarrow> (AwaitFetch r, p1)))"

text \<open>One piece of a call: from where it is to its next \<open>await\<close> or to its end.\<close>

fun resume :: "network \<Rightarrow> call \<Rightarrow> process \<Rightarrow> call \<times> process" where
  "resume net (Called date_now) p =
     (case tokens (auth p) of
        None \<Rightarrow> (Settled (Inl (Error ''No tokens available. Please authenticate first.'')), p)
      | Some t \<Rightarrow>
          let now = date_now div 1000; bufferTime = 300 in
          if expiresAt t \<le> now + bufferTime then refresh_called net p
          else (Settled (Inr (accessToken t)), p))"
| "resume net (AwaitFetch (Inl e)) p = (AwaitRefresh (Inl e), p)"
| "resume net (AwaitFetch (Inr r)) p = (if \<not> ok r then AwaitErrorJson r else AwaitDataJson r, p)"
| "resume net (AwaitErrorJson r) p =
     (case error_message r of
        Inl e \<Rightarrow> (AwaitRefresh (Inl e), p)
      | Inr m \<Rightarrow>
          (AwaitRefresh (Inl (Error (''Failed to refresh token: '' @ or_else m (statusText r)))), p))"
| "resume net (AwaitDataJson r) p =
     (case token_response r of
        Inl e \<Rightarrow> (AwaitRefresh (Inl e), p)
      | Inr data \<Rightarrow> (AwaitRefresh (Inr (from_response data)), install (from_response data) p))"
| "resume net (AwaitRefresh (Inl e)) p = (Settled (Inl e), p)"
| "resume net (AwaitRefresh (Inr _)) p =
     (case tokens (auth p) of
        None \<Rightarrow> (Settled (Inl (TypeError ''Cannot read properties of null (reading 'accessToken')'')), p)
      | Some t1 \<Rightarrow> (Settled (Inr (accessToken t1)), p))"
| "resume net (Settled r) p = (Settled r, p)"

text \<open>
  Several calls on the one object. A schedule names, piece by piece, the call that runs
  next; a number that names no call is skipped.
\<close>

fun run :: "network \<Rightarrow> nat list \<Rightarrow> call list \<times> process \<Rightarrow> call list \<times> process" where
  "run net [] st = st"
| "run net (i # sched) (cs, p) =
     (if i < length cs then
        (case resume net (cs ! i) p of (c, p1) \<Rightarrow> run net sched (cs[i := c], p1))
      else run net sched (cs, p))"

definition is_refresh :: "request \<Rightarrow> bool" where
  "is_refresh rq = ((''grant_type'', ''refresh_token'') \<in> set (body rq))"


text \<open>A call that has sent whatever it will send: it is past its first piece.\<close>

fun in_flight :: "call \<Rightarrow> bool" where
  "in_flight (Called _) = False"
| "in_flight _ = True"

subsection \<open>Scenarios\<close>

text \<open>
  The concrete inputs of the test scenarios. The clock reads 1700000000000 ms, so
  \<open>now\<close> is 1700000000. \<open>store e\<close> is a token store holding a credential that expires at
  \<open>e\<close>; \<open>unauthenticated\<close> is a store just constructed. \<open>issuing\<close> is a token endpoint that
  answers 200 with a new credential, \<open>refusing\<close> one that answers 401 with a message,
  \<open>answering_null\<close> one that answers 401 with the body \<open>null\<close>.
\<close>

definition store :: "int \<Rightarrow> process" where
  "store e =
     \<lparr>auth = \<lparr>clientId = ''12345'', clientSecret = ''secret'',
              tokens = Some \<lparr>accessToken = ''old'', refreshToken = ''old-r'', expiresAt = e\<rparr>\<rparr>,
      requests = []\<rparr>"

definition unauthenticated :: process where
  "unauthenticated = \<lparr>auth = constructor ''12345'' ''secret'', requests = []\<rparr>"

definition issuing :: network where
  "issuing sent rq =
     Inr \<lparr>status = 200, statusText = ''OK'',
          json = Inr (JsonObject \<lparr>access_token = ''new'', refresh_token = ''new-r'',
                      expires_at = 1700021600, expires_in = 21600, token_type = ''Bearer'',
                      message = None\<rparr>)\<rparr>"

definition refusing :: network where
  "refusing sent rq =
     Inr \<lparr>status = 401, statusText = ''Unauthorized'',
          json = Inr (JsonObject \<lparr>access_token = [], refresh_token = [], expires_at = 0, expires_in = 0,
                      token_type = [], message = Some ''Invalid refresh token''\<rparr>)\<rparr>"

definition answering_null :: network where
  "answering_null sent rq = Inr \<lparr>status = 401, statusText = ''Unauthorized'', json = Inr JsonNull\<rparr>"

section \<open>Properties of the methods\<close>

lemmas method_defs = getValidAccessToken_def refreshAccessToken_def exchangeToken_def fetch_def
  install_def from_response_def refresh_request_def exchange_request_def or_else_def
  error_message_def token_response_def

lemmas scenario_defs = store_def unauthenticated_def issuing_def refusing_def answering_null_def
  constructor_def ok_def

text \<open>
  C1. When the installed credential has \<open>expiresAt \<le> now + 300\<close>, \<open>getValidAccessToken\<close>
  sends exactly one request, the refresh exchange at the token endpoint; when that
  exchange succeeds (a 2xx response with a token payload), the call returns the new
  access token and the stored credential holds the server's \<open>expires_at\<close>.
\<close>

theorem C1_expiring_token_refreshed:
  assumes "tokens (auth p) = Some t" and "expiresAt t \<le> date_now div 1000 + 300"
  shows "requests (snd (getValidAccessToken net date_now p)) =
           requests p @
             [\<lparr>url = ''https://www.strava.com/oauth/token'', http_method = ''POST'',
               headers = [(''Content-Type'', ''application/json'')],
               body = [(''client_id'', clientId (auth p)), (''client_secret'', clientSecret (auth p)),
                       (''refresh_token'', refreshToken t), (''grant_type'', ''refresh_token'')]\<rparr>]
         \<and> (\<forall>r data. net (requests p) (refresh_request (auth p) t) = Inr r \<and> ok r \<and> json r = Inr (JsonObject data) \<longrightarrow>
               fst (getValidAccessToken net date_now p) = Inr (access_token data) \<and>
               tokens (auth (snd (getValidAccessToken net date_now p))) =
                 Some \<lparr>accessToken = access_token data, refreshToken = refresh_token data,
                       expiresAt = expires_at data\<rparr>)"
  using assms
  by (auto simp add: method_defs split: sum.splits option.splits prod.splits json_value.splits)

theorem C1_scenario_B:
  "fst (getValidAccessToken issuing 1700000000000 (store 1700000060)) = Inr ''new''
   \<and> tokens (auth (snd (getValidAccessToken issuing 1700000000000 (store 1700000060)))) =
       Some \<lparr>accessToken = ''new'', refreshToken = ''new-r'', expiresAt = 1700021600\<rparr>
   \<and> length (requests (snd (getValidAccessToken issuing 1700000000000 (store 1700000060)))) = 1"
  using C1_expiring_token_refreshed
    [of "store 1700000060" "\<lparr>accessToken = ''old'', refreshToken = ''old-r'', expiresAt = 1700000060\<rparr>"
        1700000000000 issuing]
  by (simp add: scenario_defs refresh_request_def)

text \<open>
  C2. When the installed credential has \<open>expiresAt > now + 300\<close>, \<open>getValidAccessToken\<close>
  returns the stored access token and leaves the process as it was: no request is sent
  and the stored credential is unchanged.
\<close>

theorem C2_fresh_token_returned:
  assumes "tokens (auth p) = Some t" and "expiresAt t > date_now div 1000 + 300"
  shows "getValidAccessToken net date_now p = (Inr (accessToken t), p)"
  using assms by (simp add: getValidAccessToken_def)

theorem C2_scenario_A:
  "getValidAccessToken refusing 1700000000000 (store 1700010000) = (Inr ''old'', store 1700010000)
   \<and> requests (store 1700010000) = []"
  using C2_fresh_token_returned
    [of "store 1700010000" "\<lparr>accessToken = ''old'', refreshToken = ''old-r'', expiresAt = 1700010000\<rparr>"
        1700000000000 refusing]
  by (simp add: scenario_defs)

text \<open>
  What \<open>refreshAccessToken\<close> does with each answer of the token endpoint. A non-2xx
  answer never changes the \<open>StravaAuth\<close> object, and the call fails: with the error
  \<open>Failed to refresh token: \<close> followed by the server's message (the status text when
  the body is not JSON or has no message) unless the body is \<open>null\<close>, and then with the
  \<open>TypeError\<close> of reading \<open>message\<close>. A 2xx answer with a token payload is returned and
  installed, all three fields in one assignment.
\<close>

lemma refreshAccessToken_answered:
  assumes "tokens (auth p) = Some t"
    and "net (requests p) (refresh_request (auth p) t) = Inr r"
  shows "(\<not> ok r \<longrightarrow>
            fst (refreshAccessToken net p) =
              (case json r of
                 Inl _ \<Rightarrow> Inl (Error (''Failed to refresh token: '' @ statusText r))
               | Inr JsonNull \<Rightarrow> Inl (TypeError ''Cannot read properties of null (reading 'message')'')
               | Inr (JsonObject b) \<Rightarrow>
                   Inl (Error (''Failed to refresh token: '' @
                     (case message b of None \<Rightarrow> statusText r
                      | Some m \<Rightarrow> if m = [] then statusText r else m)))) \<and>
            auth (snd (refreshAccessToken net p)) = auth p)
       \<and> (ok r \<longrightarrow> (\<forall>data. json r = Inr (JsonObject data) \<longrightarrow>
            fst (refreshAccessToken net p) =
              Inr \<lparr>accessToken = access_token data, refreshToken = refresh_token data,
                   expiresAt = expires_at data\<rparr> \<and>
            tokens (auth (snd (refreshAccessToken net p))) =
              Some \<lparr>accessToken = access_token data, refreshToken = refresh_token data,
                    expiresAt = expires_at data\<rparr>))"
  using assms
  by (auto simp add: method_defs split: sum.splits option.splits prod.splits json_value.splits)

lemma refreshAccessToken_scenario_C:
  "fst (refreshAccessToken refusing (store 1700000060)) =
     Inl (Error ''Failed to refresh token: Invalid refresh token'')
   \<and> snd (refreshAccessToken refusing (store 1700000060)) =
       (store 1700000060)\<lparr>requests :=
          [refresh_request (auth (store 1700000060))
             \<lparr>accessToken = ''old'', refreshToken = ''old-r'', expiresAt = 1700000060\<rparr>]\<rparr>"
  by (simp add: scenario_defs method_defs)

text \<open>
  C3. A refresh exchange answered by a non-2xx response is to fail with the refresh
  error carrying the server's message, the credential untouched. The code does so for
  a body that is an object and for a body that is not JSON; \<open>catch\<close> covers only a
  rejected \<open>json()\<close>, so for a 401 whose body is \<open>null\<close> the call fails with a
  \<open>TypeError\<close> instead (the credential is untouched there too).
\<close>

theorem C3_null_body_refresh:
  "\<not> ok \<lparr>status = 401, statusText = ''Unauthorized'', json = Inr JsonNull\<rparr>
   \<and> fst (refreshAccessToken answering_null (store 1700000060)) =
       Inl (TypeError ''Cannot read properties of null (reading 'message')'')
   \<and> fst (refreshAccessToken answering_null (store 1700000060)) \<noteq>
       Inl (Error ''Failed to refresh token: Unauthorized'')
   \<and> auth (snd (refreshAccessToken answering_null (store 1700000060))) = auth (store 1700000060)"
  by (simp add: scenario_defs method_defs)

text \<open>
  C4. With no credential installed, \<open>getValidAccessToken\<close> and \<open>refreshAccessToken\<close> both
  fail with a no-tokens error and leave the process as it was: nothing is sent and no
  credential is installed.
\<close>

theorem C4_no_credential:
  assumes "tokens (auth p) = None"
  shows "getValidAccessToken net date_now p =
           (Inl (Error ''No tokens available. Please authenticate first.''), p)
       \<and> refreshAccessToken net p = (Inl (Error ''No tokens available to refresh''), p)"
  using assms by (simp add: getValidAccessToken_def refreshAccessToken_def)

theorem C4_unauthenticated:
  "tokens (auth unauthenticated) = None
   \<and> getValidAccessToken issuing 1700000000000 unauthenticated =
       (Inl (Error ''No tokens available. Please authenticate first.''), unauthenticated)
   \<and> refreshAccessToken issuing unauthenticated =
       (Inl (Error ''No tokens available to refresh''), unauthenticated)
   \<and> requests unauthenticated = []"
  using C4_no_credential [of unauthenticated issuing 1700000000000]
  by (simp add: scenario_defs)

text \<open>
  What \<open>exchangeToken\<close> does with each answer of the token endpoint, whatever was
  installed before: a 2xx answer with a token payload is returned and installed; a
  non-2xx answer never changes the \<open>StravaAuth\<close> object, and the call fails, with the
  error \<open>Failed to exchange token: \<close> followed by the server's message (the status text
  when there is none) unless the body is \<open>null\<close>, and then with the \<open>TypeError\<close> of
  reading \<open>message\<close>.
\<close>

lemma exchangeToken_answered:
  assumes "net (requests p) (exchange_request (auth p) code) = Inr r"
  shows "(ok r \<longrightarrow> (\<forall>data. json r = Inr (JsonObject data) \<longrightarrow>
            fst (exchangeToken net code p) =
              Inr \<lparr>accessToken = access_token data, refreshToken = refresh_token data,
                   expiresAt = expires_at data\<rparr> \<and>
            tokens (auth (snd (exchangeToken net code p))) =
              Some \<lparr>accessToken = access_token data, refreshToken = refresh_token data,
                    expiresAt = expires_at data\<rparr>))
       \<and> (\<not> ok r \<longrightarrow>
            fst (exchangeToken net code p) =
              (case json r of
                 Inl _ \<Rightarrow> Inl (Error (''Failed to exchange token: '' @ statusText r))
               | Inr JsonNull \<Rightarrow> Inl (TypeError ''Cannot read properties of null (reading 'message')'')
               | Inr (JsonObject b) \<Rightarrow>
                   Inl (Error (''Failed to exchange token: '' @
                     (case message b of None \<Rightarrow> statusText r
                      | Some m \<Rightarrow> if m = [] then statusText r else m)))) \<and>
            auth (snd (exchangeToken net code p)) = auth p)"
  using assms
  by (auto simp add: method_defs split: sum.splits option.splits prod.splits json_value.splits)

lemma exchangeToken_scenario_D:
  "tokens (auth unauthenticated) = None
   \<and> fst (exchangeToken issuing ''abc123'' unauthenticated) =
       Inr \<lparr>accessToken = ''new'', refreshToken = ''new-r'', expiresAt = 1700021600\<rparr>
   \<and> tokens (auth (snd (exchangeToken issuing ''abc123'' unauthenticated))) =
       Some \<lparr>accessToken = ''new'', refreshToken = ''new-r'', expiresAt = 1700021600\<rparr>
   \<and> fst (exchangeToken refusing ''abc123'' (store 1700000060)) =
       Inl (Error ''Failed to exchange token: Invalid refresh token'')
   \<and> auth (snd (exchangeToken refusing ''abc123'' (store 1700000060))) = auth (store 1700000060)"
  by (simp add: scenario_defs method_defs)

text \<open>
  C5. An authorization-code exchange answered by any non-2xx response is to fail with
  the exchange error carrying the server's message, the state untouched. The code does
  so for a body that is an object and for a body that is not JSON; for a 401 whose body
  is \<open>null\<close> the call fails with a \<open>TypeError\<close> instead (the state is untouched there
  too).
\<close>

theorem C5_null_body_exchange:
  "\<not> ok \<lparr>status = 401, statusText = ''Unauthorized'', json = Inr JsonNull\<rparr>
   \<and> fst (exchangeToken answering_null ''abc123'' unauthenticated) =
       Inl (TypeError ''Cannot read properties of null (reading 'message')'')
   \<and> fst (exchangeToken answering_null ''abc123'' unauthenticated) \<noteq>
       Inl (Error ''Failed to exchange token: Unauthorized'')
   \<and> auth (snd (exchangeToken answering_null ''abc123'' unauthenticated)) = auth unauthenticated"
  by (simp add: scenario_defs method_defs)


subsection \<open>Sequences of calls\<close>

lemmas perform_defs = setTokens_def getAuthorizationUrl_def hasTokens_def Let_def

lemma perform_keeps_tokens: "tokens (auth p) \<noteq> None \<Longrightarrow> tokens (auth (perform net x p)) \<noteq> None"
  by (cases x)
     (auto simp add: method_defs perform_defs split: sum.splits option.splits prod.splits json_value.splits)

lemma perform_all_keeps_tokens:
  "tokens (auth p) \<noteq> None \<Longrightarrow> tokens (auth (perform_all net xs p)) \<noteq> None"
proof (induction xs arbitrary: p)
  case Nil
  then show ?case by simp
next
  case (Cons x xs)
  have "tokens (auth (perform net x p)) \<noteq> None"
    using Cons.prems by (rule perform_keeps_tokens)
  from Cons.IH [OF this] show ?case by simp
qed

lemma perform_identity:
  "clientId (auth (perform net x p)) = clientId (auth p) \<and>
   clientSecret (auth (perform net x p)) = clientSecret (auth p)"
  by (cases x)
     (auto simp add: method_defs perform_defs split: sum.splits option.splits prod.splits json_value.splits)

lemma perform_all_identity:
  "clientId (auth (perform_all net xs p)) = clientId (auth p) \<and>
   clientSecret (auth (perform_all net xs p)) = clientSecret (auth p)"
  by (induction xs arbitrary: p) (simp_all add: perform_identity)

text \<open>
  C7. Once a credential is installed, it stays installed: after any sequence of calls of
  the public methods, with any answers of the network (so also after refreshes that
  fail), \<open>tokens\<close> is not \<open>null\<close> and \<open>hasTokens\<close> returns true.
\<close>

theorem C7_authenticated_is_stable:
  assumes "tokens (auth p) \<noteq> None"
  shows "tokens (auth (perform_all net xs p)) \<noteq> None
       \<and> fst (hasTokens (perform_all net xs p)) = Inr True"
  using perform_all_keeps_tokens [OF assms] by (simp add: hasTokens_def)

theorem C7_after_failed_refresh:
  "tokens (auth (store 1700000060)) \<noteq> None
   \<and> fst (refreshAccessToken refusing (store 1700000060)) =
       Inl (Error ''Failed to refresh token: Invalid refresh token'')
   \<and> fst (hasTokens (perform_all refusing
        [RefreshAccessToken, GetValidAccessToken 1700000000000, ExchangeToken ''abc123'']
        (store 1700000060))) = Inr True"
  using C7_authenticated_is_stable
    [of "store 1700000060" refusing
        "[RefreshAccessToken, GetValidAccessToken 1700000000000, ExchangeToken ''abc123'']"]
  by (simp add: scenario_defs method_defs hasTokens_def)

text \<open>
  C9. The client identity given to the constructor is never modified: after any sequence
  of calls of the public methods, \<open>clientId\<close> and \<open>clientSecret\<close> are the constructor's
  arguments.
\<close>

theorem C9_client_identity_immutable:
  "clientId (auth (perform_all net xs \<lparr>auth = constructor cid secret, requests = sent\<rparr>)) = cid \<and>
   clientSecret (auth (perform_all net xs \<lparr>auth = constructor cid secret, requests = sent\<rparr>)) = secret"
  by (simp add: perform_all_identity constructor_def)

theorem C9_after_calls:
  "clientId (auth (perform_all issuing
      [ExchangeToken ''abc123'', SetTokens ''a'' ''r'' 0, GetValidAccessToken 1700000000000,
       RefreshAccessToken, GetAuthorizationUrl ''http://localhost'' None, HasTokens]
      \<lparr>auth = constructor ''12345'' ''secret'', requests = []\<rparr>)) = ''12345''
   \<and> clientSecret (auth (perform_all issuing
      [ExchangeToken ''abc123'', SetTokens ''a'' ''r'' 0, GetValidAccessToken 1700000000000,
       RefreshAccessToken, GetAuthorizationUrl ''http://localhost'' None, HasTokens]
      \<lparr>auth = constructor ''12345'' ''secret'', requests = []\<rparr>)) = ''secret''"
  using C9_client_identity_immutable
    [of issuing
        "[ExchangeToken ''abc123'', SetTokens ''a'' ''r'' 0, GetValidAccessToken 1700000000000,
          RefreshAccessToken, GetAuthorizationUrl ''http://localhost'' None, HasTokens]"
        "''12345''" "''secret''" "[]"]
  by simp

text \<open>
  C10. \<open>setTokens\<close> checks nothing: it installs exactly the triple it is given, and
  \<open>hasTokens\<close> is true afterwards. If the triple has already expired, the next
  \<open>getValidAccessToken\<close> takes the refresh path: it sends the refresh request with the
  given refresh token, and its outcome is the outcome of that refresh.
\<close>

theorem C10_setTokens_unvalidated:
  "tokens (auth (snd (setTokens a r e p))) = Some \<lparr>accessToken = a, refreshToken = r, expiresAt = e\<rparr>
   \<and> fst (hasTokens (snd (setTokens a r e p))) = Inr True
   \<and> (e \<le> date_now div 1000 \<longrightarrow>
        requests (snd (getValidAccessToken net date_now (snd (setTokens a r e p)))) =
          requests p @ [refresh_request (auth p) \<lparr>accessToken = a, refreshToken = r, expiresAt = e\<rparr>]
        \<and> getValidAccessToken net date_now (snd (setTokens a r e p)) =
            (case refreshAccessToken net (snd (setTokens a r e p)) of
               (res, q) \<Rightarrow> (map_sum id accessToken res, q)))"
  by (auto simp add: method_defs setTokens_def hasTokens_def
      split: sum.splits option.splits prod.splits json_value.splits)

theorem C10_expired_triple:
  "tokens (auth (snd (setTokens ''a'' ''r'' 5 unauthenticated))) =
     Some \<lparr>accessToken = ''a'', refreshToken = ''r'', expiresAt = 5\<rparr>
   \<and> fst (hasTokens (snd (setTokens ''a'' ''r'' 5 unauthenticated))) = Inr True
   \<and> (5::int) \<le> 1700000000000 div 1000
   \<and> length (requests (snd (getValidAccessToken issuing 1700000000000
        (snd (setTokens ''a'' ''r'' 5 unauthenticated))))) = 1
   \<and> fst (getValidAccessToken issuing 1700000000000
        (snd (setTokens ''a'' ''r'' 5 unauthenticated))) = Inr ''new''"
  using C10_setTokens_unvalidated [of "''a''" "''r''" 5 unauthenticated 1700000000000 issuing]
  by (simp add: scenario_defs method_defs setTokens_def hasTokens_def)


subsection \<open>The authorization URL\<close>

text \<open>Decoding undoes encoding, and an encoded string has no \<open>&\<close> and no \<open>=\<close>.\<close>

lemma hex_table:
  "list_all (\<lambda>n. unhex (hex_digit n) = n \<and> hex_digit n \<noteq> CHR ''&'' \<and> hex_digit n \<noteq> CHR ''='')
     [0..<16]"
  by code_simp

lemma unhex_hex_digit: "n < 16 \<Longrightarrow> unhex (hex_digit n) = n"
  using hex_table by (simp add: list_all_iff)

lemma hex_digit_plain: "n < 16 \<Longrightarrow> hex_digit n \<noteq> CHR ''&'' \<and> hex_digit n \<noteq> CHR ''=''"
  using hex_table by (simp add: list_all_iff)

lemma of_char_below: "of_char c < (256::nat)"
proof -
  have "of_char c mod 256 = (of_char c :: nat)" by simp
  then show ?thesis by (metis mod_less_divisor zero_less_numeral)
qed

lemma unreserved_plain:
  "unreserved c \<Longrightarrow> c \<noteq> CHR ''%'' \<and> c \<noteq> CHR ''+'' \<and> c \<noteq> CHR ''&'' \<and> c \<noteq> CHR ''=''"
  by (auto simp add: unreserved_def)

lemma urldecode_encode_byte: "urldecode (encode_byte c @ rest) = c # urldecode rest"
proof -
  have hi: "of_char c div 16 < (16::nat)" using of_char_below [of c] by arith
  have lo: "of_char c mod 16 < (16::nat)" by simp
  have "char_of (of_char c div 16 * 16 + of_char c mod 16 :: nat) = c" by simp
  then show ?thesis
    using unreserved_plain [of c]
    by (simp add: encode_byte_def unhex_hex_digit [OF hi] unhex_hex_digit [OF lo])
qed

lemma urldecode_urlencode_append: "urldecode (urlencode s @ rest) = s @ urldecode rest"
  by (induction s) (simp_all add: urlencode_def urldecode_encode_byte del: urldecode.simps)

lemma urldecode_urlencode: "urldecode (urlencode s) = s"
  using urldecode_urlencode_append [of s "[]"] by simp

lemma encode_byte_plain: "x \<in> set (encode_byte c) \<Longrightarrow> x \<noteq> CHR ''&'' \<and> x \<noteq> CHR ''=''"
proof -
  have hi: "of_char c div 16 < (16::nat)" using of_char_below [of c] by arith
  have lo: "of_char c mod 16 < (16::nat)" by simp
  show "x \<in> set (encode_byte c) \<Longrightarrow> x \<noteq> CHR ''&'' \<and> x \<noteq> CHR ''=''"
    using unreserved_plain [of c] hex_digit_plain [OF hi] hex_digit_plain [OF lo]
    by (auto simp add: encode_byte_def split: if_splits)
qed

lemma urlencode_plain: "x \<in> set (urlencode s) \<Longrightarrow> x \<noteq> CHR ''&'' \<and> x \<noteq> CHR ''=''"
  by (auto simp add: urlencode_def dest: encode_byte_plain)

lemma split_on_single: "d \<notin> set a \<Longrightarrow> split_on d a = [a]"
  by (induction a) auto

lemma split_on_append: "d \<notin> set a \<Longrightarrow> split_on d (a @ d # b) = a # split_on d b"
  by (induction a) auto

lemma parse_pair_encoded: "parse_pair (urlencode k @ ''='' @ urlencode v) = (k, v)"
proof -
  have k: "\<And>x. x \<in> set (urlencode k) \<Longrightarrow> x \<noteq> CHR ''=''" using urlencode_plain by blast
  have "takeWhile (\<lambda>c. c \<noteq> CHR ''='') (urlencode k @ ''='' @ urlencode v) = urlencode k"
    using k by simp
  moreover have "dropWhile (\<lambda>c. c \<noteq> CHR ''='') (urlencode k @ ''='' @ urlencode v) = ''='' @ urlencode v"
    using k by simp
  ultimately show ?thesis by (simp add: parse_pair_def urldecode_urlencode)
qed

lemma pair_no_amp: "CHR ''&'' \<notin> set (urlencode k @ ''='' @ urlencode v)"
  using urlencode_plain by auto

lemma parse_query_toString: "kvs \<noteq> [] \<Longrightarrow> parse_query (toString kvs) = kvs"
proof (induction kvs rule: toString.induct)
  case 1
  then show ?case by simp
next
  case (2 k v)
  show ?case
    using split_on_single [OF pair_no_amp [of k v]] parse_pair_encoded [of k v]
    by (simp add: parse_query_def)
next
  case (3 k v kv rest)
  have "toString ((k, v) # kv # rest) = (urlencode k @ ''='' @ urlencode v) @ CHR ''&'' # toString (kv # rest)"
    by simp
  then have "split_on CHR ''&'' (toString ((k, v) # kv # rest)) =
      (urlencode k @ ''='' @ urlencode v) # split_on CHR ''&'' (toString (kv # rest))"
    using split_on_append [OF pair_no_amp [of k v]] by simp
  then show ?case
    using 3 parse_pair_encoded [of k v] by (simp add: parse_query_def)
qed

lemma query_of_authorize: "query_of (''https://www.strava.com/oauth/authorize?'' @ q) = q"
  by (simp add: query_of_def)


text \<open>
  C8. \<open>getAuthorizationUrl\<close> sends nothing and changes nothing (the process is as
  before), its result depends on the object only through \<open>clientId\<close>, and the URL it
  returns is the authorization endpoint followed by a query string that reads back as
  exactly the four parameters \<open>client_id\<close>, \<open>redirect_uri\<close>, \<open>response_type=code\<close> and
  \<open>scope\<close>, in this order, with the values given.
\<close>

theorem C8_authorization_url:
  "snd (getAuthorizationUrl redirectUri scope p) = p
   \<and> (\<exists>u. fst (getAuthorizationUrl redirectUri scope p) = Inr u
        \<and> u = ''https://www.strava.com/oauth/authorize?client_id='' @ urlencode (clientId (auth p)) @
              ''&redirect_uri='' @ urlencode redirectUri @ ''&response_type=code&scope='' @
              urlencode (case scope of
                           None \<Rightarrow> ''read,activity:read_all,activity:write,profile:read_all''
                         | Some s \<Rightarrow> s)
        \<and> parse_query (query_of u) =
            [(''client_id'', clientId (auth p)), (''redirect_uri'', redirectUri),
             (''response_type'', ''code''),
             (''scope'', case scope of
                           None \<Rightarrow> ''read,activity:read_all,activity:write,profile:read_all''
                         | Some s \<Rightarrow> s)])
   \<and> (\<forall>q. clientId (auth q) = clientId (auth p) \<longrightarrow>
        fst (getAuthorizationUrl redirectUri scope q) = fst (getAuthorizationUrl redirectUri scope p))"
proof -
  let ?sc = "case scope of None \<Rightarrow> ''read,activity:read_all,activity:write,profile:read_all'' | Some s \<Rightarrow> s"
  let ?params = "[(''client_id'', clientId (auth p)), (''redirect_uri'', redirectUri),
                  (''response_type'', ''code''), (''scope'', ?sc)]"
  have u: "fst (getAuthorizationUrl redirectUri scope p) =
             Inr (''https://www.strava.com/oauth/authorize?'' @ toString ?params)"
    by (simp add: getAuthorizationUrl_def)
  have fixed: "urlencode ''client_id'' = ''client_id''" "urlencode ''redirect_uri'' = ''redirect_uri''"
    "urlencode ''response_type'' = ''response_type''" "urlencode ''scope'' = ''scope''"
    "urlencode ''code'' = ''code''"
    by (simp_all add: urlencode_def encode_byte_def unreserved_def)
  have shape: "''https://www.strava.com/oauth/authorize?'' @ toString ?params =
      ''https://www.strava.com/oauth/authorize?client_id='' @ urlencode (clientId (auth p)) @
      ''&redirect_uri='' @ urlencode redirectUri @ ''&response_type=code&scope='' @ urlencode ?sc"
    by (simp add: fixed)
  have parse: "parse_query (query_of (''https://www.strava.com/oauth/authorize?'' @ toString ?params)) = ?params"
    using parse_query_toString [of ?params] by (simp only: query_of_authorize) simp
  have same: "\<And>q. clientId (auth q) = clientId (auth p) \<Longrightarrow>
        fst (getAuthorizationUrl redirectUri scope q) = fst (getAuthorizationUrl redirectUri scope p)"
    by (simp add: getAuthorizationUrl_def)
  have unchanged: "snd (getAuthorizationUrl redirectUri scope p) = p"
    by (simp add: getAuthorizationUrl_def)
  from u shape parse same unchanged show ?thesis by (metis)
qed


theorem C8_localhost_callback:
  "fst (getAuthorizationUrl ''http://localhost:3000/callback'' None (store 0)) =
     Inr ''https://www.strava.com/oauth/authorize?client_id=12345&redirect_uri=http%3A%2F%2Flocalhost%3A3000%2Fcallback&response_type=code&scope=read%2Cactivity%3Aread_all%2Cactivity%3Awrite%2Cprofile%3Aread_all''
   \<and> snd (getAuthorizationUrl ''http://localhost:3000/callback'' None (store 0)) = store 0
   \<and> clientId (auth unauthenticated) = clientId (auth (store 0))
   \<and> fst (getAuthorizationUrl ''http://localhost:3000/callback'' None unauthenticated) =
       fst (getAuthorizationUrl ''http://localhost:3000/callback'' None (store 0))"
  using C8_authorization_url [of "''http://localhost:3000/callback''" None "store 0"]
  by (simp add: scenario_defs getAuthorizationUrl_def urlencode_def encode_byte_def
      unreserved_def hex_digit_def)

subsection \<open>Calls in flight\<close>

text \<open>
  A call that runs alone, piece after piece, does what the method does in one go: the
  pieces are the method.
\<close>

lemma run_alone:
  "run net [0, 0, 0, 0] ([Called d], p) =
     ([Settled (fst (getValidAccessToken net d p))], snd (getValidAccessToken net d p))"
  by (auto simp add: method_defs refresh_called_def Let_def split: sum.splits option.splits prod.splits json_value.splits)


lemma run_append: "run net (a @ b) st = run net b (run net a st)"
proof (induction a arbitrary: st)
  case Nil
  then show ?case by simp
next
  case (Cons i a)
  then show ?case by (cases st) (simp split: prod.splits)
qed

lemma resume_in_flight:
  "in_flight c \<Longrightarrow> in_flight (fst (resume net c p)) \<and> requests (snd (resume net c p)) = requests p"
  by (induction net c p rule: resume.induct)
     (auto simp add: install_def split: sum.splits option.splits)

lemma run_in_flight:
  "list_all in_flight cs \<Longrightarrow> requests (snd (run net sched (cs, p))) = requests p"
proof (induction sched arbitrary: cs p)
  case Nil
  then show ?case by simp
next
  case (Cons i sched)
  show ?case
  proof (cases "i < length cs")
    case False
    then show ?thesis using Cons by simp
  next
    case True
    obtain c p1 where r: "resume net (cs ! i) p = (c, p1)" by (cases "resume net (cs ! i) p")
    have "in_flight (cs ! i)" using Cons.prems True by (simp add: list_all_length)
    from resume_in_flight [OF this, of net p] r
    have c: "in_flight c" and p1: "requests p1 = requests p" by simp_all
    have "list_all in_flight (cs[i := c])"
      using Cons.prems c set_update_subset_insert [of cs i c] by (auto simp add: list_all_iff)
    from Cons.IH [OF this, of p1] show ?thesis using True r p1 by simp
  qed
qed

lemma called_expiring:
  assumes "tokens (auth p) = Some t" and "expiresAt t \<le> d div 1000 + 300"
  shows "resume net (Called d) p =
           (AwaitFetch (net (requests p) (refresh_request (auth p) t)),
            p\<lparr>requests := requests p @ [refresh_request (auth p) t]\<rparr>)"
  using assms by (simp add: refresh_called_def fetch_def)

lemma await_fetch_resumed:
  "in_flight (fst (resume net (AwaitFetch r) p)) \<and> snd (resume net (AwaitFetch r) p) = p"
  by (cases r) simp_all


text \<open>
  C6. Two concurrent calls of \<open>getValidAccessToken\<close> on an expiring credential are to
  send at most one refresh exchange. \<open>StravaAuth\<close> has no guard for that: a second call
  made while the first is suspended in its refresh sends a second refresh request. Here
  the two calls are made one after the other, before any answer arrives, and both then
  run to their end: two refresh requests have been sent.
\<close>

theorem C6_two_refreshes_sent:
  "tokens (auth (store 1700000060)) =
     Some \<lparr>accessToken = ''old'', refreshToken = ''old-r'', expiresAt = 1700000060\<rparr>
   \<and> (1700000060::int) \<le> 1700000000000 div 1000 + 300
   \<and> fst (run issuing [0, 1, 0, 0, 0, 1, 1, 1]
        ([Called 1700000000000, Called 1700000000000], store 1700000060)) =
       [Settled (Inr ''new''), Settled (Inr ''new'')]
   \<and> \<not> length (filter is_refresh (requests (snd (run issuing [0, 1, 0, 0, 0, 1, 1, 1]
        ([Called 1700000000000, Called 1700000000000], store 1700000060))))) \<le> 1"
  by (simp add: scenario_defs method_defs refresh_called_def is_refresh_def)

text \<open>
  C6, as the code has it. Two calls of \<open>getValidAccessToken\<close> on a credential that is
  expiring for both, the second made while the first is suspended at
  \<open>await fetch(...)\<close> or at \<open>await response.json()\<close> (after one or two pieces of the
  first), send two refresh requests, both with the old refresh token, whatever the
  network answers and however the calls are scheduled afterwards.
\<close>

theorem C6_each_call_refreshes:
  assumes "tokens (auth p) = Some t"
    and "expiresAt t \<le> d1 div 1000 + 300" and "expiresAt t \<le> d2 div 1000 + 300"
    and "k = 1 \<or> k = 2"
  shows "requests (snd (run net (replicate k 0 @ 1 # rest) ([Called d1, Called d2], p))) =
           requests p @ [refresh_request (auth p) t, refresh_request (auth p) t]"
proof -
  let ?rq = "refresh_request (auth p) t"
  let ?p1 = "p\<lparr>requests := requests p @ [?rq]\<rparr>"
  let ?p2 = "p\<lparr>requests := requests p @ [?rq, ?rq]\<rparr>"
  have first: "run net [0] ([Called d1, Called d2], p) =
      ([AwaitFetch (net (requests p) ?rq), Called d2], ?p1)"
    using called_expiring [OF assms(1,2), of net] by simp
  have "\<exists>c. in_flight c \<and> run net (replicate k 0) ([Called d1, Called d2], p) = ([c, Called d2], ?p1)"
  proof (cases "k = 1")
    case True
    then show ?thesis using first by simp
  next
    case False
    then have k: "replicate k (0::nat) = [0] @ [0]" using assms(4) by (simp add: numeral_2_eq_2)
    obtain c q where r: "resume net (AwaitFetch (net (requests p) ?rq)) ?p1 = (c, q)"
      by (cases "resume net (AwaitFetch (net (requests p) ?rq)) ?p1")
    from await_fetch_resumed [of net "net (requests p) ?rq" ?p1] r
    have "in_flight c" and "q = ?p1" by simp_all
    then show ?thesis using r first unfolding k run_append by simp
  qed
  then obtain c where c: "in_flight c"
    and before: "run net (replicate k 0) ([Called d1, Called d2], p) = ([c, Called d2], ?p1)"
    by blast
  have second: "resume net (Called d2) ?p1 =
      (AwaitFetch (net (requests ?p1) ?rq), ?p2)"
    using called_expiring [of ?p1 t d2 net] assms(1,3) by simp
  have "run net (replicate k 0 @ 1 # rest) ([Called d1, Called d2], p) =
      run net rest ([c, AwaitFetch (net (requests ?p1) ?rq)], ?p2)"
    unfolding run_append before using second by simp
  moreover have "list_all in_flight [c, AwaitFetch (net (requests ?p1) ?rq)]"
    using c by simp
  ultimately show ?thesis
    using run_in_flight [of "[c, AwaitFetch (net (requests ?p1) ?rq)]" net rest ?p2] by simp
qed


theorem C6_second_call_during_fetch:
  "requests (snd (run issuing (replicate 1 0 @ 1 # [0, 0, 0, 1, 1, 1])
      ([Called 1700000000000, Called 1700000000000], store 1700000060))) =
     [refresh_request (auth (store 1700000060))
        \<lparr>accessToken = ''old'', refreshToken = ''old-r'', expiresAt = 1700000060\<rparr>,
      refresh_request (auth (store 1700000060))
        \<lparr>accessToken = ''old'', refreshToken = ''old-r'', expiresAt = 1700000060\<rparr>]"
  using C6_each_call_refreshes
    [of "store 1700000060" "\<lparr>accessToken = ''old'', refreshToken = ''old-r'', expiresAt = 1700000060\<rparr>"
        1700000000000 1700000000000 1 issuing "[0, 0, 0, 1, 1, 1]"]
  by (simp add: store_def)

end
